theory Spec2Isabelle
  imports Complex_Main
begin

section \<open>Subscription billing demo: data model\<close>

text \<open>
  The development follows \<^verbatim>\<open>models.py\<close>, \<^verbatim>\<open>payment_service.py\<close>,
  \<^verbatim>\<open>dunning_service.py\<close> and \<^verbatim>\<open>app.py\<close>.

  Conventions of the embedding:
  \<^item> a \<^verbatim>\<open>datetime\<close> is an integer number of microseconds; a \<^verbatim>\<open>timedelta\<close> is a
    difference of two of them and its \<^verbatim>\<open>.days\<close> attribute is the floor of the quotient by
    one day, as Python normalises it;
  \<^item> a float is a \<open>real\<close>: the rounding of float arithmetic is not part of the model. The
    two places where the finiteness of floats decides a result are modelled exactly: the
    ints that are too large for a float, and the value of the literal \<^verbatim>\<open>0.7\<close>;
  \<^item> a \<^verbatim>\<open>str\<close> is the list of its characters, those below 256;
  \<^item> every read of the environment is an argument of the operation that performs it, in
    the order of the calls: a reading of \<^verbatim>\<open>datetime.utcnow()\<close>, the result of
    \<^verbatim>\<open>random.random()\<close>, \<^verbatim>\<open>random.randint(1000, 9999)\<close> and \<^verbatim>\<open>str(uuid.uuid4())\<close>, the
    encoding of \<^verbatim>\<open>sys.stdout\<close> where \<^verbatim>\<open>dunning_service.py\<close> prints, and what the SMTP
    transport does with a message. The message of an exception of the transport is taken
    to be text that \<^verbatim>\<open>sys.stdout\<close> can hold;
  \<^item> a table is the list of its rows in insertion order; a new row gets an id one above
    the largest id of the table (SQLite's rowid), and \<^verbatim>\<open>db.session.commit()\<close> is the point
    where the table of the world changes;
  \<^item> an f-string is the list of its fragments: the literal pieces and the formatted
    values, before rendering.
\<close>

type_synonym datetime = int

definition timedelta :: "int \<Rightarrow> int" where
  \<comment> \<open>\<^verbatim>\<open>timedelta(days=d)\<close>, in microseconds\<close>
  "timedelta d = d * 86400000000"

definition days :: "int \<Rightarrow> int" where
  \<comment> \<open>the \<^verbatim>\<open>.days\<close> attribute of a \<^verbatim>\<open>timedelta\<close>\<close>
  "days delta = delta div 86400000000"

datatype frag =
    Lit string
  | Fixed2 real       \<comment> \<open>\<^verbatim>\<open>{x:.2f}\<close>\<close>
  | Stamp datetime    \<comment> \<open>\<^verbatim>\<open>{d}\<close> for a datetime\<close>

type_synonym fstring = "frag list"

fun str_nat :: "nat \<Rightarrow> string" where
  "str_nat n =
     (if n < 10 then [''0123456789'' ! n]
      else str_nat (n div 10) @ [''0123456789'' ! (n mod 10)])"

declare str_nat.simps [simp del]

definition str_int :: "int \<Rightarrow> string" where
  \<comment> \<open>\<^verbatim>\<open>str(i)\<close> for a Python int\<close>
  "str_int i = (if i < 0 then ''-'' @ str_nat (nat (- i)) else str_nat (nat i))"

subsection \<open>Values of the request and what Python does with them\<close>

datatype error = OverflowError | ValueError | TypeError | UnicodeEncodeError

datatype number = PInt int | PFloat real
  \<comment> \<open>a JSON number as \<^verbatim>\<open>request.json\<close> holds it: a Python int or a float\<close>

datatype pyval = PyNone | PyBool bool | PyNum number | PyStr string | PyOther
  \<comment> \<open>a JSON value; \<open>PyOther\<close> is an array or an object\<close>

definition number_value :: "number \<Rightarrow> real" where
  "number_value n = (case n of PInt i \<Rightarrow> real_of_int i | PFloat x \<Rightarrow> x)"

definition fits_double :: "int \<Rightarrow> bool" where
  \<comment> \<open>the ints that \<^verbatim>\<open>float(i)\<close> converts: from \<open>2^1024 - 2^970\<close> on the nearest double is out of range\<close>
  "fits_double i = (\<bar>i\<bar> < 2 ^ 1024 - 2 ^ 970)"

definition float_of :: "number \<Rightarrow> error + real" where
  \<comment> \<open>\<^verbatim>\<open>float(x)\<close>: the conversion of a number bound to a \<^verbatim>\<open>Float\<close> column, and of an int
      formatted with \<^verbatim>\<open>.2f\<close>\<close>
  "float_of n =
     (case n of
        PFloat x \<Rightarrow> Inr x
      | PInt i \<Rightarrow> if fits_double i then Inr (real_of_int i) else Inl OverflowError)"

definition format_2f :: "pyval \<Rightarrow> error + frag" where
  \<comment> \<open>\<^verbatim>\<open>{v:.2f}\<close> in an f-string\<close>
  "format_2f v =
     (case v of
        PyNum n \<Rightarrow> (case float_of n of Inl e \<Rightarrow> Inl e | Inr x \<Rightarrow> Inr (Fixed2 x))
      | PyBool b \<Rightarrow> Inr (Fixed2 (if b then 1 else 0))
      | PyStr s \<Rightarrow> Inl ValueError
      | PyNone \<Rightarrow> Inl TypeError
      | PyOther \<Rightarrow> Inl TypeError)"

definition double_0_7 :: real where
  \<comment> \<open>the value of the float literal \<^verbatim>\<open>0.7\<close>: the double nearest to 7/10\<close>
  "double_0_7 = 3152519739159347 / 2 ^ 52"

datatype encoding = Ascii | Utf8
  \<comment> \<open>the encoding of \<^verbatim>\<open>sys.stdout\<close>: one that holds ASCII only, or one that holds every
      character\<close>

definition is_ascii :: "string \<Rightarrow> bool" where
  "is_ascii s = list_all (\<lambda>c. (of_char c :: nat) < 128) s"

fun encodable_frag :: "encoding \<Rightarrow> frag \<Rightarrow> bool" where
  "encodable_frag Utf8 f = True"
| "encodable_frag Ascii (Lit s) = is_ascii s"
| "encodable_frag Ascii (Fixed2 x) = True"
| "encodable_frag Ascii (Stamp d) = True"

definition encodable :: "encoding \<Rightarrow> fstring \<Rightarrow> bool" where
  "encodable enc l = list_all (encodable_frag enc) l"

subsection \<open>Tables and the world\<close>

record customer =
  c_id :: int
  c_email :: string
  c_name :: string
  c_role :: string

record payment_method =
  pm_id :: int
  pm_customer_id :: int
  pm_card_number :: string
  pm_token :: string

record subscription =
  sub_id :: int
  sub_customer_id :: int
  sub_plan_name :: string
  sub_price :: real
  sub_billing_interval :: string
  sub_start_date :: datetime
  sub_end_date :: "datetime option"
  sub_status :: string

record invoice =
  inv_id :: int
  inv_customer_id :: int
  inv_subscription_id :: int
  inv_amount :: real
  inv_status :: string
  inv_due_date :: datetime

record message =
  msg_subject :: fstring
  msg_from :: string
  msg_to :: string
  msg_body :: fstring

datatype smtp = Delivered | SmtpError string

record world =
  customers :: "customer list"
  payment_methods :: "payment_method list"
  subscriptions :: "subscription list"
  invoices :: "invoice list"
  smtp_log :: "(message \<times> smtp) list"
    \<comment> \<open>every message handed to \<^verbatim>\<open>smtplib\<close>, with what the transport did\<close>
  stdout :: "fstring list"
    \<comment> \<open>the lines printed\<close>

definition init_world :: world where
  \<comment> \<open>\<^verbatim>\<open>db.create_all()\<close> on a new database\<close>
  "init_world =
     \<lparr>customers = [], payment_methods = [], subscriptions = [], invoices = [],
      smtp_log = [], stdout = []\<rparr>"

datatype jval = JInt int | JStr string | JReal real | JTime datetime

datatype response =
    Json nat "(string \<times> jval) list"   \<comment> \<open>\<^verbatim>\<open>jsonify(...), code\<close>\<close>
  | Abort nat                             \<comment> \<open>\<^verbatim>\<open>get_or_404\<close> failing, or an uncaught exception\<close>

definition next_id :: "int list \<Rightarrow> int" where
  "next_id ids = fold max ids 0 + 1"

definition get_customer_row :: "world \<Rightarrow> int \<Rightarrow> customer option" where
  "get_customer_row w k = find (\<lambda>c. c_id c = k) (customers w)"

definition get_payment_method_row :: "world \<Rightarrow> int \<Rightarrow> payment_method option" where
  "get_payment_method_row w k = find (\<lambda>p. pm_id p = k) (payment_methods w)"

definition get_subscription_row :: "world \<Rightarrow> int \<Rightarrow> subscription option" where
  "get_subscription_row w k = find (\<lambda>s. sub_id s = k) (subscriptions w)"

definition save_subscription :: "subscription \<Rightarrow> world \<Rightarrow> world" where
  \<comment> \<open>the commit of a modified Subscription object: its row is replaced\<close>
  "save_subscription s w =
     w\<lparr>subscriptions := map (\<lambda>r. if sub_id r = sub_id s then s else r) (subscriptions w)\<rparr>"

definition print_line :: "fstring \<Rightarrow> world \<Rightarrow> world" where
  "print_line l w = w\<lparr>stdout := stdout w @ [l]\<rparr>"

definition print_stdout :: "encoding \<Rightarrow> fstring \<Rightarrow> world \<Rightarrow> error option \<times> world" where
  \<comment> \<open>\<^verbatim>\<open>print(l)\<close> on a \<^verbatim>\<open>sys.stdout\<close> with encoding \<open>enc\<close>: a line that the encoding cannot
      hold raises and nothing is written\<close>
  "print_stdout enc l w =
     (if encodable enc l then (None, print_line l w) else (Some UnicodeEncodeError, w))"

definition sqlite_int :: "int \<Rightarrow> bool" where
  \<comment> \<open>the ints that \<^verbatim>\<open>sqlite3\<close> binds as a parameter: signed 64 bits\<close>
  "sqlite_int k = (- (2 ^ 63) \<le> k \<and> k < 2 ^ 63)"

definition get_or_404 :: "'a option \<Rightarrow> int \<Rightarrow> nat + 'a" where
  \<comment> \<open>\<^verbatim>\<open>Model.query.get_or_404(k)\<close> on the row that the table holds for \<open>k\<close>: the status of
      the failure, or the row. An id that \<^verbatim>\<open>sqlite3\<close> cannot bind raises \<^verbatim>\<open>OverflowError\<close>,
      which the server answers with 500\<close>
  "get_or_404 row k =
     (if sqlite_int k then (case row of None \<Rightarrow> Inl 404 | Some x \<Rightarrow> Inr x) else Inl 500)"

section \<open>payment\_service.py\<close>

definition mock_payment_gateway ::
  "real \<Rightarrow> int \<Rightarrow> string \<Rightarrow> pyval \<Rightarrow> (string \<times> string) list" where
  \<comment> \<open>\<open>r\<close> is \<^verbatim>\<open>random.random()\<close>, \<open>n\<close> is \<^verbatim>\<open>random.randint(1000, 9999)\<close>\<close>
  "mock_payment_gateway r n token amount =
     (if r < double_0_7
      then [(''status'', ''success''), (''transaction_id'', str_int n)]
      else [(''status'', ''failed''), (''error'', ''insufficient_funds'')])"

definition process_payment ::
  "real \<Rightarrow> int \<Rightarrow> payment_method \<Rightarrow> pyval \<Rightarrow> (string \<times> string) list" where
  "process_payment r n payment_method amount =
     mock_payment_gateway r n (pm_token payment_method) amount"

section \<open>dunning\_service.py\<close>

definition dunning_send_email ::
  "encoding \<Rightarrow> string \<Rightarrow> fstring \<Rightarrow> fstring \<Rightarrow> world \<Rightarrow> (error + bool) \<times> world" where
  \<comment> \<open>\<^verbatim>\<open>send_email\<close> of \<^verbatim>\<open>dunning_service.py\<close>\<close>
  "dunning_send_email enc to_email subject body w =
     (case print_stdout enc ([Lit ''Mock sending email to '', Lit to_email, Lit '': '']
                            @ subject @ [Lit '' - ''] @ body) w of
        (Some e, w1) \<Rightarrow> (Inl e, w1)
      | (None, w1) \<Rightarrow> (Inr True, w1))"

definition handle_failed_payment ::
  "encoding \<Rightarrow> datetime \<Rightarrow> customer \<Rightarrow> payment_method \<Rightarrow> pyval \<Rightarrow> world
     \<Rightarrow> error option \<times> world" where
  \<comment> \<open>\<open>None\<close>: the function returns; \<open>Some e\<close>: it raises \<open>e\<close>\<close>
  "handle_failed_payment enc now customer payment_method amount w =
     (let retry_date = now + timedelta 2
      in case print_stdout enc [Lit ''Scheduled retry for '', Lit (c_email customer),
                                Lit '' on '', Stamp retry_date] w of
           (Some e, w1) \<Rightarrow> (Some e, w1)
         | (None, w1) \<Rightarrow>
             (case format_2f amount of
                Inl e \<Rightarrow> (Some e, w1)
              | Inr a \<Rightarrow>
                  (case dunning_send_email enc (c_email customer) [Lit ''Payment Failed'']
                          [Lit ''Payment of $'', a, Lit '' failed. We'll retry on '',
                           Stamp retry_date, Lit ''. Please update your payment method.'']
                          w1 of
                     (Inl e, w2) \<Rightarrow> (Some e, w2)
                   | (Inr _, w2) \<Rightarrow> (None, w2))))"

section \<open>app.py\<close>

definition send_email :: "smtp \<Rightarrow> string \<Rightarrow> fstring \<Rightarrow> fstring \<Rightarrow> world \<Rightarrow> bool \<times> world" where
  \<comment> \<open>\<^verbatim>\<open>send_email\<close> of \<^verbatim>\<open>app.py\<close>; \<open>tr\<close> is what the transport does\<close>
  "send_email tr to_email subject body w =
     (let msg = \<lparr>msg_subject = subject, msg_from = ''billing@example.com'',
                 msg_to = to_email, msg_body = body\<rparr>;
          w1 = w\<lparr>smtp_log := smtp_log w @ [(msg, tr)]\<rparr>
      in case tr of
           Delivered \<Rightarrow> (True, w1)
         | SmtpError e \<Rightarrow> (False, print_line [Lit ''Email failed: '', Lit e] w1))"

record customer_request =
  cr_email :: string
  cr_name :: "string option"
  cr_role :: "string option"

definition create_customer :: "customer_request \<Rightarrow> world \<Rightarrow> response \<times> world" where
  "create_customer data w =
     (let customer = \<lparr>c_id = next_id (map c_id (customers w)),
                      c_email = cr_email data,
                      c_name = (case cr_name data of None \<Rightarrow> '''' | Some n \<Rightarrow> n),
                      c_role = (case cr_role data of None \<Rightarrow> ''user'' | Some r \<Rightarrow> r)\<rparr>
      in if cr_email data \<in> set (map c_email (customers w))
         then (Abort 500, w)   \<comment> \<open>the unique constraint on email fails the commit\<close>
         else (Json 201 [(''id'', JInt (c_id customer)), (''email'', JStr (c_email customer)),
                         (''role'', JStr (c_role customer))],
               w\<lparr>customers := customers w @ [customer]\<rparr>))"

definition last4 :: "string \<Rightarrow> string" where
  \<comment> \<open>the slice \<^verbatim>\<open>[-4:]\<close>\<close>
  "last4 s = drop (length s - 4) s"

record payment_method_request =
  pr_card_number :: string

definition add_payment_method ::
  "string \<Rightarrow> int \<Rightarrow> payment_method_request \<Rightarrow> world \<Rightarrow> response \<times> world" where
  \<comment> \<open>\<open>u\<close> is \<^verbatim>\<open>str(uuid.uuid4())\<close>\<close>
  "add_payment_method u customer_id data w =
     (case get_or_404 (get_customer_row w customer_id) customer_id of
        Inl code \<Rightarrow> (Abort code, w)
      | Inr _ \<Rightarrow>
          let token = u;
              payment_method = \<lparr>pm_id = next_id (map pm_id (payment_methods w)),
                                pm_customer_id = customer_id,
                                pm_card_number = last4 (pr_card_number data),
                                pm_token = token\<rparr>
          in (Json 201 [(''id'', JInt (pm_id payment_method)),
                        (''card_number'', JStr (pm_card_number payment_method))],
              w\<lparr>payment_methods := payment_methods w @ [payment_method]\<rparr>))"

record payment_request =
  pay_customer_id :: int
  pay_amount :: pyval
  pay_payment_method_id :: int

definition process_payment_route ::
  "encoding \<Rightarrow> real \<Rightarrow> int \<Rightarrow> datetime \<Rightarrow> payment_request \<Rightarrow> world \<Rightarrow> response \<times> world" where
  "process_payment_route enc r n now data w =
     (let customer_id = pay_customer_id data;
          amount = pay_amount data;
          payment_method_id = pay_payment_method_id data
      in case get_or_404 (get_payment_method_row w payment_method_id) payment_method_id of
           Inl code \<Rightarrow> (Abort code, w)
         | Inr payment_method \<Rightarrow>
             let result = process_payment r n payment_method amount
             in if map_of result ''status'' = Some ''success''
                then (Json 200 (map (\<lambda>(k, v). (k, JStr v)) result), w)
                else (case get_or_404 (get_customer_row w customer_id) customer_id of
                        Inl code \<Rightarrow> (Abort code, w)
                      | Inr customer \<Rightarrow>
                          (case handle_failed_payment enc now customer payment_method amount w of
                             (Some e, w1) \<Rightarrow> (Abort 500, w1)
                           | (None, w1) \<Rightarrow>
                               (Json 400 (map (\<lambda>(k, v). (k, JStr v)) result), w1))))"

definition generate_invoice ::
  "datetime \<Rightarrow> smtp \<Rightarrow> customer \<Rightarrow> subscription \<Rightarrow> number \<Rightarrow> world
     \<Rightarrow> (error + invoice) \<times> world" where
  "generate_invoice now tr customer subscription amount w =
     (case float_of amount of
        Inl e \<Rightarrow> (Inl e, w)   \<comment> \<open>the commit fails on the \<^verbatim>\<open>Float\<close> column: nothing is stored\<close>
      | Inr a \<Rightarrow>
          let invoice = \<lparr>inv_id = next_id (map inv_id (invoices w)),
                         inv_customer_id = c_id customer,
                         inv_subscription_id = sub_id subscription,
                         inv_amount = a,
                         inv_status = ''pending'',
                         inv_due_date = now + timedelta 7\<rparr>;
              w1 = w\<lparr>invoices := invoices w @ [invoice]\<rparr>
          in case format_2f (PyNum amount) of
               Inl e \<Rightarrow> (Inl e, w1)
             | Inr f \<Rightarrow>
                 (Inr invoice,
                  snd (send_email tr (c_email customer)
                         [Lit ''Invoice #'', Lit (str_int (inv_id invoice))]
                         [Lit ''New invoice for '', Lit (sub_plan_name subscription),
                          Lit ''. Amount: $'', f, Lit '', Due: '',
                          Stamp (inv_due_date invoice)]
                         w1)))"

record subscription_request =
  sr_customer_id :: int
  sr_plan_name :: string
  sr_price :: number
  sr_billing_interval :: string

definition create_subscription ::
  "datetime \<Rightarrow> datetime \<Rightarrow> smtp \<Rightarrow> subscription_request \<Rightarrow> world \<Rightarrow> response \<times> world" where
  \<comment> \<open>\<open>now1\<close> is the clock read in the route, \<open>now2\<close> the one read in \<^verbatim>\<open>generate_invoice\<close>\<close>
  "create_subscription now1 now2 tr data w =
     (case get_or_404 (get_customer_row w (sr_customer_id data)) (sr_customer_id data) of
        Inl code \<Rightarrow> (Abort code, w)
      | Inr customer \<Rightarrow>
          let start_date = now1
          in case float_of (sr_price data) of
               Inl e \<Rightarrow> (Abort 500, w)
                 \<comment> \<open>the commit fails on the \<^verbatim>\<open>Float\<close> column: nothing is stored\<close>
             | Inr price \<Rightarrow>
                 let subscription = \<lparr>sub_id = next_id (map sub_id (subscriptions w)),
                                     sub_customer_id = c_id customer,
                                     sub_plan_name = sr_plan_name data,
                                     sub_price = price,
                                     sub_billing_interval = sr_billing_interval data,
                                     sub_start_date = start_date,
                                     sub_end_date = None,
                                     sub_status = ''active''\<rparr>;
                     w1 = w\<lparr>subscriptions := subscriptions w @ [subscription]\<rparr>
                 in case generate_invoice now2 tr customer subscription (sr_price data) w1 of
                      (Inl e, w2) \<Rightarrow> (Abort 500, w2)
                    | (Inr invoice, w2) \<Rightarrow>
                        (Json 201 [(''id'', JInt (sub_id subscription)),
                                   (''plan_name'', JStr (sub_plan_name subscription)),
                                   (''status'', JStr (sub_status subscription)),
                                   (''invoice_id'', JInt (inv_id invoice))],
                         w2))"

definition cancel_subscription ::
  "datetime \<Rightarrow> datetime \<Rightarrow> smtp \<Rightarrow> int \<Rightarrow> world \<Rightarrow> response \<times> world" where
  \<comment> \<open>\<open>now1\<close> is the clock read for \<^verbatim>\<open>end_date\<close>, \<open>now2\<close> the one read for the proration\<close>
  "cancel_subscription now1 now2 tr subscription_id w =
     (case get_subscription_row w subscription_id of
        None \<Rightarrow> (Abort 404, w)
      | Some subscription0 \<Rightarrow>
          let subscription = subscription0\<lparr>sub_status := ''canceled'', sub_end_date := Some now1\<rparr>;
              days_remaining = 30 - days (now2 - sub_start_date subscription)
          in if days_remaining > 0
             then (case get_customer_row w (sub_customer_id subscription) of
                     None \<Rightarrow> (Abort 500, w)   \<comment> \<open>\<^verbatim>\<open>subscription.customer\<close> is None: nothing is committed\<close>
                   | Some customer \<Rightarrow>
                       let prorated_amount = (real_of_int days_remaining / 30) * sub_price subscription;
                           w1 = snd (send_email tr (c_email customer)
                                       [Lit ''Subscription Canceled'']
                                       [Lit ''Your subscription has been canceled. Prorated refund: $'',
                                        Fixed2 prorated_amount]
                                       w)
                       in (Json 200 [(''id'', JInt (sub_id subscription)),
                                     (''status'', JStr (sub_status subscription))],
                           save_subscription subscription w1))
             else (Json 200 [(''id'', JInt (sub_id subscription)),
                             (''status'', JStr (sub_status subscription))],
                   save_subscription subscription w))"

section \<open>Reachable states and invariants\<close>

text \<open>
  The states of the service: the new database, and the state after any request to one of
  the five routes that write, with any reading of the environment.
\<close>

inductive reachable :: "world \<Rightarrow> bool" where
  r_init: "reachable init_world"
| r_customer: "reachable w \<Longrightarrow> reachable (snd (create_customer data w))"
| r_method: "reachable w \<Longrightarrow> reachable (snd (add_payment_method u customer_id data w))"
| r_payment: "reachable w \<Longrightarrow> reachable (snd (process_payment_route enc r n now data w))"
| r_subscribe: "reachable w \<Longrightarrow> reachable (snd (create_subscription now1 now2 tr data w))"
| r_cancel: "reachable w \<Longrightarrow> reachable (snd (cancel_subscription now1 now2 tr subscription_id w))"

text \<open>
  The same states together with the UUIDs that \<^verbatim>\<open>uuid.uuid4()\<close> has returned on the way.
  The generator is taken not to repeat itself: a call returns a value that it has not
  returned before in the run. It is called by \<^verbatim>\<open>add_payment_method\<close> once the customer has
  been found.
\<close>

inductive run :: "string list \<Rightarrow> world \<Rightarrow> bool" where
  run_init: "run [] init_world"
| run_customer: "run us w \<Longrightarrow> run us (snd (create_customer data w))"
| run_no_method:
    "run us w \<Longrightarrow> get_or_404 (get_customer_row w customer_id) customer_id = Inl code \<Longrightarrow>
     run us (snd (add_payment_method u customer_id data w))"
| run_method:
    "run us w \<Longrightarrow> get_or_404 (get_customer_row w customer_id) customer_id = Inr c \<Longrightarrow>
     u \<notin> set us \<Longrightarrow>
     run (u # us) (snd (add_payment_method u customer_id data w))"
| run_payment: "run us w \<Longrightarrow> run us (snd (process_payment_route enc r n now data w))"
| run_subscribe: "run us w \<Longrightarrow> run us (snd (create_subscription now1 now2 tr data w))"
| run_cancel: "run us w \<Longrightarrow> run us (snd (cancel_subscription now1 now2 tr subscription_id w))"

definition end_date_iff_canceled :: "world \<Rightarrow> bool" where
  "end_date_iff_canceled w =
     (\<forall>s \<in> set (subscriptions w). (sub_end_date s \<noteq> None) = (sub_status s = ''canceled''))"

definition customers_present :: "world \<Rightarrow> bool" where
  "customers_present w =
     (\<forall>s \<in> set (subscriptions w). get_customer_row w (sub_customer_id s) \<noteq> None)"


definition scheduled_retries :: "world \<Rightarrow> nat" where
  \<comment> \<open>how many times the line that opens \<^verbatim>\<open>handle_failed_payment\<close> has been printed\<close>
  "scheduled_retries w =
     length (filter (\<lambda>l. take 1 l = [Lit ''Scheduled retry for '']) (stdout w))"

subsection \<open>A small run of the service\<close>

definition a_customer_request :: customer_request where
  "a_customer_request = \<lparr>cr_email = ''a@b.com'', cr_name = None, cr_role = None\<rparr>"

definition a_customer :: customer where
  "a_customer = \<lparr>c_id = 1, c_email = ''a@b.com'', c_name = [], c_role = ''user''\<rparr>"

definition a_subscription_request :: subscription_request where
  "a_subscription_request =
     \<lparr>sr_customer_id = 1, sr_plan_name = ''Pro'', sr_price = PFloat (2999 / 100),
      sr_billing_interval = ''monthly''\<rparr>"

definition world_with_customer :: world where
  "world_with_customer = snd (create_customer a_customer_request init_world)"

definition world_with_method :: world where
  "world_with_method =
     snd (add_payment_method ''123e4567-e89b-42d3-a456-426614174000'' 1
            \<lparr>pr_card_number = ''4111111111111111''\<rparr> world_with_customer)"

definition world_with_subscription :: world where
  \<comment> \<open>the subscription starts at time 0; the invoice is generated one microsecond later\<close>
  "world_with_subscription =
     snd (create_subscription 0 1 Delivered a_subscription_request world_with_customer)"

definition a_subscription :: subscription where
  "a_subscription =
     \<lparr>sub_id = 1, sub_customer_id = 1, sub_plan_name = ''Pro'', sub_price = 2999 / 100,
      sub_billing_interval = ''monthly'', sub_start_date = 0, sub_end_date = None,
      sub_status = ''active''\<rparr>"

definition a_payment_method :: payment_method where
  "a_payment_method =
     \<lparr>pm_id = 1, pm_customer_id = 1, pm_card_number = ''1111'',
      pm_token = ''123e4567-e89b-42d3-a456-426614174000''\<rparr>"

definition a_payment_request :: payment_request where
  "a_payment_request =
     \<lparr>pay_customer_id = 1, pay_amount = PyNum (PInt 10), pay_payment_method_id = 1\<rparr>"

definition an_accented_address :: string where
  \<comment> \<open>an address whose first character, e with an acute accent, is not ASCII\<close>
  "an_accented_address = CHR 0xE9 # ''@b.com''"

definition a_huge_int :: int where
  \<comment> \<open>the int \<^verbatim>\<open>10**400\<close>, in JSON a 1 followed by 400 zeros: beyond the range of a double\<close>
  "a_huge_int = 10 ^ 400"

section \<open>Effects of the operations on the tables\<close>

lemma send_email_fields [simp]:
  "customers (snd (send_email tr a b c w)) = customers w"
  "payment_methods (snd (send_email tr a b c w)) = payment_methods w"
  "subscriptions (snd (send_email tr a b c w)) = subscriptions w"
  "invoices (snd (send_email tr a b c w)) = invoices w"
  "smtp_log (snd (send_email tr a b c w)) =
     smtp_log w @ [(\<lparr>msg_subject = b, msg_from = ''billing@example.com'', msg_to = a, msg_body = c\<rparr>, tr)]"
  by (simp_all add: send_email_def print_line_def Let_def split: smtp.split)

lemma print_stdout_fields [simp]:
  "customers (snd (print_stdout enc l w)) = customers w"
  "payment_methods (snd (print_stdout enc l w)) = payment_methods w"
  "subscriptions (snd (print_stdout enc l w)) = subscriptions w"
  "invoices (snd (print_stdout enc l w)) = invoices w"
  "smtp_log (snd (print_stdout enc l w)) = smtp_log w"
  by (simp_all add: print_stdout_def print_line_def)

lemma dunning_send_email_fields [simp]:
  "customers (snd (dunning_send_email enc a b c w)) = customers w"
  "payment_methods (snd (dunning_send_email enc a b c w)) = payment_methods w"
  "subscriptions (snd (dunning_send_email enc a b c w)) = subscriptions w"
  "invoices (snd (dunning_send_email enc a b c w)) = invoices w"
  "smtp_log (snd (dunning_send_email enc a b c w)) = smtp_log w"
  by (simp_all add: dunning_send_email_def print_stdout_def print_line_def)

lemma handle_failed_payment_fields [simp]:
  "customers (snd (handle_failed_payment enc now c p a w)) = customers w"
  "payment_methods (snd (handle_failed_payment enc now c p a w)) = payment_methods w"
  "subscriptions (snd (handle_failed_payment enc now c p a w)) = subscriptions w"
  "invoices (snd (handle_failed_payment enc now c p a w)) = invoices w"
  "smtp_log (snd (handle_failed_payment enc now c p a w)) = smtp_log w"
  by (simp_all add: handle_failed_payment_def dunning_send_email_def print_stdout_def
        print_line_def Let_def split: sum.split)

lemma create_customer_fields [simp]:
  "payment_methods (snd (create_customer data w)) = payment_methods w"
  "subscriptions (snd (create_customer data w)) = subscriptions w"
  "invoices (snd (create_customer data w)) = invoices w"
  by (simp_all add: create_customer_def Let_def)

lemma add_payment_method_fields [simp]:
  "customers (snd (add_payment_method u k data w)) = customers w"
  "subscriptions (snd (add_payment_method u k data w)) = subscriptions w"
  "invoices (snd (add_payment_method u k data w)) = invoices w"
  by (simp_all add: add_payment_method_def Let_def split: sum.split)

lemma process_payment_route_fields [simp]:
  "customers (snd (process_payment_route enc r n now data w)) = customers w"
  "payment_methods (snd (process_payment_route enc r n now data w)) = payment_methods w"
  "subscriptions (snd (process_payment_route enc r n now data w)) = subscriptions w"
  "invoices (snd (process_payment_route enc r n now data w)) = invoices w"
  "smtp_log (snd (process_payment_route enc r n now data w)) = smtp_log w"
proof -
  have *: "(case handle_failed_payment enc now c p a w of
              (Some e, w1) \<Rightarrow> (x, w1) | (None, w1) \<Rightarrow> (y, w1)) =
           (case fst (handle_failed_payment enc now c p a w) of Some e \<Rightarrow> x | None \<Rightarrow> y,
            snd (handle_failed_payment enc now c p a w))" for c p a x y
    by (simp split: prod.split option.split)
  show "customers (snd (process_payment_route enc r n now data w)) = customers w"
    "payment_methods (snd (process_payment_route enc r n now data w)) = payment_methods w"
    "subscriptions (snd (process_payment_route enc r n now data w)) = subscriptions w"
    "invoices (snd (process_payment_route enc r n now data w)) = invoices w"
    "smtp_log (snd (process_payment_route enc r n now data w)) = smtp_log w"
    by (simp_all add: process_payment_route_def Let_def * split: sum.split)
qed

lemma get_or_404_Inr: "(get_or_404 row k = Inr x) = (sqlite_int k \<and> row = Some x)"
  by (simp add: get_or_404_def split: option.split)

lemma float_of_format_2f: "float_of n = Inr x \<Longrightarrow> format_2f (PyNum n) = Inr (Fixed2 x)"
  by (simp add: format_2f_def)

lemma float_of_value: "float_of n = Inr x \<Longrightarrow> x = number_value n"
  by (auto simp: float_of_def number_value_def split: number.splits if_splits)

lemma create_subscription_eq:
  "create_subscription now1 now2 tr data w =
     (case get_or_404 (get_customer_row w (sr_customer_id data)) (sr_customer_id data) of
        Inl code \<Rightarrow> (Abort code, w)
      | Inr c \<Rightarrow>
          (case float_of (sr_price data) of
             Inl e \<Rightarrow> (Abort 500, w)
           | Inr p \<Rightarrow>
               (Json 201 [(''id'', JInt (next_id (map sub_id (subscriptions w)))),
                          (''plan_name'', JStr (sr_plan_name data)),
                          (''status'', JStr ''active''),
                          (''invoice_id'', JInt (next_id (map inv_id (invoices w))))],
                snd (send_email tr (c_email c)
                       [Lit ''Invoice #'', Lit (str_int (next_id (map inv_id (invoices w))))]
                       [Lit ''New invoice for '', Lit (sr_plan_name data), Lit ''. Amount: $'',
                        Fixed2 p, Lit '', Due: '', Stamp (now2 + timedelta 7)]
                       (w\<lparr>subscriptions := subscriptions w @
                            [\<lparr>sub_id = next_id (map sub_id (subscriptions w)),
                              sub_customer_id = c_id c,
                              sub_plan_name = sr_plan_name data, sub_price = p,
                              sub_billing_interval = sr_billing_interval data,
                              sub_start_date = now1,
                              sub_end_date = None, sub_status = ''active''\<rparr>],
                          invoices := invoices w @
                            [\<lparr>inv_id = next_id (map inv_id (invoices w)),
                              inv_customer_id = c_id c,
                              inv_subscription_id = next_id (map sub_id (subscriptions w)),
                              inv_amount = p, inv_status = ''pending'',
                              inv_due_date = now2 + timedelta 7\<rparr>]\<rparr>)))))"
  by (simp add: create_subscription_def generate_invoice_def Let_def float_of_format_2f
           split: sum.split)

lemma create_subscription_customers [simp]:
  "customers (snd (create_subscription now1 now2 tr data w)) = customers w"
  by (simp add: create_subscription_eq split: sum.split)

lemma create_subscription_subscriptions:
  "subscriptions (snd (create_subscription now1 now2 tr data w)) =
     (case get_or_404 (get_customer_row w (sr_customer_id data)) (sr_customer_id data) of
        Inl code \<Rightarrow> subscriptions w
      | Inr c \<Rightarrow>
          (case float_of (sr_price data) of
             Inl e \<Rightarrow> subscriptions w
           | Inr p \<Rightarrow> subscriptions w @
               [\<lparr>sub_id = next_id (map sub_id (subscriptions w)), sub_customer_id = c_id c,
                 sub_plan_name = sr_plan_name data, sub_price = p,
                 sub_billing_interval = sr_billing_interval data, sub_start_date = now1,
                 sub_end_date = None, sub_status = ''active''\<rparr>]))"
  by (simp add: create_subscription_eq split: sum.split)

lemma cancel_subscription_customers [simp]:
  "customers (snd (cancel_subscription now1 now2 tr k w)) = customers w"
  by (simp add: cancel_subscription_def save_subscription_def Let_def split: option.split)

lemma find_SomeD: "find P xs = Some x \<Longrightarrow> x \<in> set xs \<and> P x"
  by (induction xs) (auto split: if_splits)

lemma get_subscription_rowD:
  "get_subscription_row w k = Some s \<Longrightarrow> s \<in> set (subscriptions w) \<and> sub_id s = k"
  unfolding get_subscription_row_def by (drule find_SomeD) simp

lemma cancel_subscription_subscriptions:
  "set (subscriptions (snd (cancel_subscription now1 now2 tr k w))) \<subseteq>
     set (subscriptions w) \<union>
     {s\<lparr>sub_status := ''canceled'', sub_end_date := Some now1\<rparr> | s. s \<in> set (subscriptions w)}"
proof (cases "get_subscription_row w k")
  case None
  then show ?thesis by (simp add: cancel_subscription_def)
next
  case (Some s)
  then have "s \<in> set (subscriptions w)" by (simp add: get_subscription_rowD)
  with Some show ?thesis
    by (auto simp: cancel_subscription_def save_subscription_def Let_def split: option.splits)
qed

lemma get_customer_row_cong:
  "customers w' = customers w \<Longrightarrow> get_customer_row w' k = get_customer_row w k"
  by (simp add: get_customer_row_def)

lemma reachable_end_date: "reachable w \<Longrightarrow> end_date_iff_canceled w"
proof (induction rule: reachable.induct)
  case r_init
  show ?case by (simp add: end_date_iff_canceled_def init_world_def)
next
  case (r_subscribe w now1 now2 tr data)
  then show ?case
    by (auto simp: end_date_iff_canceled_def create_subscription_subscriptions split: sum.splits)
next
  case (r_cancel w now1 now2 tr k)
  show ?case unfolding end_date_iff_canceled_def
  proof
    fix s assume "s \<in> set (subscriptions (snd (cancel_subscription now1 now2 tr k w)))"
    with cancel_subscription_subscriptions [of now1 now2 tr k w]
    consider "s \<in> set (subscriptions w)"
      | s0 where "s = s0\<lparr>sub_status := ''canceled'', sub_end_date := Some now1\<rparr>" by blast
    then show "(sub_end_date s \<noteq> None) = (sub_status s = ''canceled'')"
    proof cases
      case 1 with r_cancel.IH show ?thesis by (simp add: end_date_iff_canceled_def)
    next
      case 2 then show ?thesis by simp
    qed
  qed
qed (simp_all add: end_date_iff_canceled_def)

lemma find_append_Some: "find P xs = Some x \<Longrightarrow> find P (xs @ ys) = Some x"
  by (induction xs) (auto split: if_splits)

lemma get_customer_rowD:
  "get_customer_row w k = Some c \<Longrightarrow> c \<in> set (customers w) \<and> c_id c = k"
  unfolding get_customer_row_def by (drule find_SomeD) simp

lemma reachable_customers_present: "reachable w \<Longrightarrow> customers_present w"
proof (induction rule: reachable.induct)
  case r_init
  show ?case by (simp add: customers_present_def init_world_def)
next
  case (r_customer w data)
  have "get_customer_row (snd (create_customer data w)) k \<noteq> None"
    if "get_customer_row w k \<noteq> None" for k
  proof -
    from that obtain c where c: "find (\<lambda>c. c_id c = k) (customers w) = Some c"
      by (auto simp: get_customer_row_def)
    then have "find (\<lambda>c. c_id c = k) (customers w @ ys) = Some c" for ys
      by (rule find_append_Some)
    with c show ?thesis
      by (simp add: create_customer_def get_customer_row_def Let_def)
  qed
  with r_customer.IH show ?case
    by (simp add: customers_present_def)
next
  case (r_subscribe w now1 now2 tr data)
  show ?case
  proof (cases "get_or_404 (get_customer_row w (sr_customer_id data)) (sr_customer_id data)")
    case (Inl code)
    with r_subscribe.IH show ?thesis
      by (simp add: customers_present_def create_subscription_subscriptions get_customer_row_def)
  next
    case (Inr c)
    then have c: "get_customer_row w (sr_customer_id data) = Some c"
      by (simp add: get_or_404_Inr)
    then have "c_id c = sr_customer_id data" by (simp add: get_customer_rowD)
    with Inr c r_subscribe.IH show ?thesis
      by (cases "float_of (sr_price data)")
         (simp_all add: customers_present_def create_subscription_subscriptions
            get_customer_row_def)
  qed
next
  case (r_cancel w now1 now2 tr k)
  show ?case unfolding customers_present_def
  proof
    fix s assume "s \<in> set (subscriptions (snd (cancel_subscription now1 now2 tr k w)))"
    with cancel_subscription_subscriptions [of now1 now2 tr k w]
    consider "s \<in> set (subscriptions w)"
      | s0 where "s0 \<in> set (subscriptions w)" "s = s0\<lparr>sub_status := ''canceled'', sub_end_date := Some now1\<rparr>" by blast
    then show "get_customer_row (snd (cancel_subscription now1 now2 tr k w)) (sub_customer_id s) \<noteq> None"
    proof cases
      case 1 with r_cancel.IH show ?thesis by (simp add: customers_present_def get_customer_row_def)
    next
      case 2 with r_cancel.IH show ?thesis by (simp add: customers_present_def get_customer_row_def)
    qed
  qed
qed (simp_all add: customers_present_def get_customer_row_def)

lemma find_replaced:
  "find (\<lambda>r. sub_id r = k) xs = Some s \<Longrightarrow> sub_id s' = k \<Longrightarrow>
   find (\<lambda>r. sub_id r = k) (map (\<lambda>r. if sub_id r = k then s' else r) xs) = Some s'"
  by (induction xs) (auto split: if_splits)

lemma save_subscription_fields [simp]:
  "customers (save_subscription s w) = customers w"
  "payment_methods (save_subscription s w) = payment_methods w"
  "invoices (save_subscription s w) = invoices w"
  "smtp_log (save_subscription s w) = smtp_log w"
  "stdout (save_subscription s w) = stdout w"
  by (simp_all add: save_subscription_def)

lemma get_subscription_row_save:
  assumes "get_subscription_row w k = Some s" and "sub_id s' = k"
    and "subscriptions w' = subscriptions w"
  shows "get_subscription_row (save_subscription s' w') k = Some s'"
  using assms by (simp add: get_subscription_row_def save_subscription_def find_replaced)

lemma cancel_subscription_found:
  assumes "get_subscription_row w k = Some s"
    and "get_customer_row w (sub_customer_id s) = Some c"
  shows "cancel_subscription now1 now2 tr k w =
     (Json 200 [(''id'', JInt k), (''status'', JStr ''canceled'')],
      save_subscription (s\<lparr>sub_status := ''canceled'', sub_end_date := Some now1\<rparr>)
        (if 0 < 30 - days (now2 - sub_start_date s)
         then snd (send_email tr (c_email c) [Lit ''Subscription Canceled'']
                     [Lit ''Your subscription has been canceled. Prorated refund: $'',
                      Fixed2 (real_of_int (30 - days (now2 - sub_start_date s)) / 30 * sub_price s)]
                     w)
         else w))"
proof -
  from assms(1) have "sub_id s = k" by (simp add: get_subscription_rowD)
  with assms show ?thesis by (simp add: cancel_subscription_def Let_def)
qed

lemma reachable_customer_of:
  assumes "reachable w" and "get_subscription_row w k = Some s"
  obtains c where "get_customer_row w (sub_customer_id s) = Some c"
proof -
  from assms(2) have "s \<in> set (subscriptions w)" by (simp add: get_subscription_rowD)
  with reachable_customers_present [OF assms(1)]
  have "get_customer_row w (sub_customer_id s) \<noteq> None" by (simp add: customers_present_def)
  with that show ?thesis by auto
qed

lemma save_subscription_subscriptions:
  "subscriptions (save_subscription s w) =
     map (\<lambda>r. if sub_id r = sub_id s then s else r) (subscriptions w)"
  by (simp add: save_subscription_def)

lemma cancel_subscription_row:
  assumes "get_subscription_row w k = Some s"
    and "get_customer_row w (sub_customer_id s) = Some c"
  shows "get_subscription_row (snd (cancel_subscription now1 now2 tr k w)) k =
     Some (s\<lparr>sub_status := ''canceled'', sub_end_date := Some now1\<rparr>)"
  using assms(1)
  by (simp add: cancel_subscription_found [OF assms] get_subscription_row_save
        get_subscription_rowD)

lemma cancel_subscription_smtp_log:
  assumes "get_subscription_row w k = Some s"
    and "get_customer_row w (sub_customer_id s) = Some c"
  shows "smtp_log (snd (cancel_subscription now1 now2 tr k w)) =
       (if 0 < 30 - days (now2 - sub_start_date s)
        then smtp_log w @
          [(\<lparr>msg_subject = [Lit ''Subscription Canceled''], msg_from = ''billing@example.com'',
             msg_to = c_email c,
             msg_body = [Lit ''Your subscription has been canceled. Prorated refund: $'',
                         Fixed2 (real_of_int (30 - days (now2 - sub_start_date s)) / 30
                                 * sub_price s)]\<rparr>, tr)]
        else smtp_log w)"
  by (simp add: cancel_subscription_found [OF assms])

lemma cancel_subscription_tables:
  assumes "get_subscription_row w k = Some s"
    and "get_customer_row w (sub_customer_id s) = Some c"
  shows "subscriptions (snd (cancel_subscription now1 now2 tr k w)) =
       map (\<lambda>r. if sub_id r = k then s\<lparr>sub_status := ''canceled'', sub_end_date := Some now1\<rparr>
                   else r) (subscriptions w)"
    and "payment_methods (snd (cancel_subscription now1 now2 tr k w)) = payment_methods w"
    and "invoices (snd (cancel_subscription now1 now2 tr k w)) = invoices w"
  using assms(1)
  by (simp_all add: cancel_subscription_found [OF assms] save_subscription_subscriptions
        get_subscription_rowD)

lemma run_reachable: "run us w \<Longrightarrow> reachable w"
  by (induction rule: run.induct) (auto intro: reachable.intros)


lemma create_subscription_payment_methods [simp]:
  "payment_methods (snd (create_subscription now1 now2 tr data w)) = payment_methods w"
  by (simp add: create_subscription_eq split: sum.split)

lemma cancel_subscription_payment_methods [simp]:
  "payment_methods (snd (cancel_subscription now1 now2 tr k w)) = payment_methods w"
  by (simp add: cancel_subscription_def save_subscription_def Let_def split: option.split)


lemma encodable_scheduled:
  "encodable enc [Lit ''Scheduled retry for '', Lit a, Lit '' on '', Stamp d] =
     encodable enc [Lit a]"
  by (cases enc) (simp_all add: encodable_def is_ascii_def)

lemma encodable_mock_sending:
  "encodable enc ([Lit ''Mock sending email to '', Lit a, Lit '': ''] @ [Lit ''Payment Failed'']
      @ [Lit '' - ''] @
      [Lit ''Payment of $'', Fixed2 x, Lit '' failed. We'll retry on '', Stamp d,
       Lit ''. Please update your payment method.'']) =
     encodable enc [Lit a]"
  by (cases enc) (simp_all add: encodable_def is_ascii_def)

lemma encodable_Utf8 [simp]: "encodable Utf8 l"
  by (simp add: encodable_def list_all_iff)

lemma handle_failed_payment_returns:
  assumes "float_of n = Inr x" and "encodable enc [Lit (c_email customer)]"
  shows "handle_failed_payment enc now customer payment_method (PyNum n) w =
     (None,
      w\<lparr>stdout := stdout w @
        [[Lit ''Scheduled retry for '', Lit (c_email customer), Lit '' on '',
          Stamp (now + timedelta 2)],
         [Lit ''Mock sending email to '', Lit (c_email customer), Lit '': '',
          Lit ''Payment Failed'', Lit '' - '',
          Lit ''Payment of $'', Fixed2 x, Lit '' failed. We'll retry on '',
          Stamp (now + timedelta 2), Lit ''. Please update your payment method.'']]\<rparr>)"
proof -
  have "dunning_send_email enc (c_email customer) [Lit ''Payment Failed'']
          [Lit ''Payment of $'', Fixed2 x, Lit '' failed. We'll retry on '',
           Stamp (now + timedelta 2), Lit ''. Please update your payment method.''] w1 =
        (Inr True,
         print_line [Lit ''Mock sending email to '', Lit (c_email customer), Lit '': '',
          Lit ''Payment Failed'', Lit '' - '',
          Lit ''Payment of $'', Fixed2 x, Lit '' failed. We'll retry on '',
          Stamp (now + timedelta 2), Lit ''. Please update your payment method.''] w1)" for w1
    unfolding dunning_send_email_def print_stdout_def encodable_mock_sending
    using assms(2) by simp
  with assms show ?thesis
    by (simp add: handle_failed_payment_def print_stdout_def encodable_scheduled
          float_of_format_2f print_line_def Let_def)
qed

lemma handle_failed_payment_overflow:
  assumes "float_of n = Inl e" and "encodable enc [Lit (c_email customer)]"
  shows "handle_failed_payment enc now customer payment_method (PyNum n) w =
     (Some e,
      w\<lparr>stdout := stdout w @
        [[Lit ''Scheduled retry for '', Lit (c_email customer), Lit '' on '',
          Stamp (now + timedelta 2)]]\<rparr>)"
  using assms
  by (simp add: handle_failed_payment_def print_stdout_def encodable_scheduled
        format_2f_def print_line_def Let_def)

lemma handle_failed_payment_unencodable:
  assumes "\<not> encodable enc [Lit (c_email customer)]"
  shows "handle_failed_payment enc now customer payment_method amount w =
     (Some UnicodeEncodeError, w)"
  using assms
  by (simp add: handle_failed_payment_def print_stdout_def encodable_scheduled Let_def)

lemma scheduled_retries_append:
  "scheduled_retries (w\<lparr>stdout := stdout w @ ls\<rparr>) =
     scheduled_retries w + length (filter (\<lambda>l. take 1 l = [Lit ''Scheduled retry for '']) ls)"
  by (simp add: scheduled_retries_def)

lemma process_payment_route_found:
  assumes "get_or_404 (get_payment_method_row w (pay_payment_method_id data))
             (pay_payment_method_id data) = Inr pm"
  shows "process_payment_route enc r n now data w =
     (if map_of (process_payment r n pm (pay_amount data)) ''status'' = Some ''success''
      then (Json 200 [(''status'', JStr ''success''), (''transaction_id'', JStr (str_int n))], w)
      else case get_or_404 (get_customer_row w (pay_customer_id data)) (pay_customer_id data) of
             Inl code \<Rightarrow> (Abort code, w)
           | Inr customer \<Rightarrow>
               (case fst (handle_failed_payment enc now customer pm (pay_amount data) w) of
                  None \<Rightarrow> Json 400 [(''status'', JStr ''failed''),
                                     (''error'', JStr ''insufficient_funds'')]
                | Some e \<Rightarrow> Abort 500,
                snd (handle_failed_payment enc now customer pm (pay_amount data) w)))"
  using assms
  by (simp add: process_payment_route_def process_payment_def mock_payment_gateway_def Let_def
           split: sum.split prod.split option.split)

lemma process_payment_status:
  "(map_of (process_payment r n pm a) ''status'' = Some ''success'') = (r < double_0_7)"
  by (simp add: process_payment_def mock_payment_gateway_def)


lemma last4_short: "length s \<le> 4 \<Longrightarrow> last4 s = s"
  by (simp add: last4_def)



subsection \<open>The small run, evaluated\<close>

lemma world_with_customer_eq:
  "world_with_customer =
     \<lparr>customers = [\<lparr>c_id = 1, c_email = ''a@b.com'', c_name = '''', c_role = ''user''\<rparr>],
      payment_methods = [], subscriptions = [], invoices = [], smtp_log = [], stdout = []\<rparr>"
  by (simp add: world_with_customer_def create_customer_def a_customer_request_def init_world_def
        next_id_def Let_def)

lemma world_with_method_eq:
  "world_with_method =
     \<lparr>customers = [\<lparr>c_id = 1, c_email = ''a@b.com'', c_name = '''', c_role = ''user''\<rparr>],
      payment_methods = [\<lparr>pm_id = 1, pm_customer_id = 1, pm_card_number = ''1111'',
                          pm_token = ''123e4567-e89b-42d3-a456-426614174000''\<rparr>],
      subscriptions = [], invoices = [], smtp_log = [], stdout = []\<rparr>"
  by (simp add: world_with_method_def world_with_customer_eq add_payment_method_def
        get_customer_row_def get_or_404_def sqlite_int_def next_id_def last4_def Let_def)

lemma str_int_1: "str_int 1 = ''1''"
  by (simp add: str_int_def str_nat.simps)

lemma world_with_subscription_eq:
  "world_with_subscription =
     \<lparr>customers = [\<lparr>c_id = 1, c_email = ''a@b.com'', c_name = '''', c_role = ''user''\<rparr>],
      payment_methods = [],
      subscriptions = [\<lparr>sub_id = 1, sub_customer_id = 1, sub_plan_name = ''Pro'',
                        sub_price = 2999 / 100, sub_billing_interval = ''monthly'',
                        sub_start_date = 0, sub_end_date = None, sub_status = ''active''\<rparr>],
      invoices = [\<lparr>inv_id = 1, inv_customer_id = 1, inv_subscription_id = 1,
                   inv_amount = 2999 / 100, inv_status = ''pending'',
                   inv_due_date = 604800000001\<rparr>],
      smtp_log = [(\<lparr>msg_subject = [Lit ''Invoice #'', Lit ''1''],
                    msg_from = ''billing@example.com'', msg_to = ''a@b.com'',
                    msg_body = [Lit ''New invoice for '', Lit ''Pro'', Lit ''. Amount: $'',
                                Fixed2 (2999 / 100), Lit '', Due: '', Stamp 604800000001]\<rparr>,
                   Delivered)],
      stdout = []\<rparr>"
  by (simp add: world_with_subscription_def world_with_customer_eq create_subscription_def
        generate_invoice_def send_email_def a_subscription_request_def get_customer_row_def
        get_or_404_def sqlite_int_def float_of_def format_2f_def
        next_id_def timedelta_def str_int_1 Let_def)

lemma reachable_world_with_customer: "reachable world_with_customer"
  unfolding world_with_customer_def by (intro reachable.intros)

lemma reachable_world_with_method: "reachable world_with_method"
  unfolding world_with_method_def by (intro reachable.intros reachable_world_with_customer)

lemma reachable_world_with_subscription: "reachable world_with_subscription"
  unfolding world_with_subscription_def by (intro reachable.intros reachable_world_with_customer)

lemma world_with_subscription_row:
  "get_subscription_row world_with_subscription 1 = Some a_subscription"
  by (simp add: world_with_subscription_eq get_subscription_row_def a_subscription_def)

lemma world_with_subscription_customer:
  "get_customer_row world_with_subscription 1 =
     Some \<lparr>c_id = 1, c_email = ''a@b.com'', c_name = [], c_role = ''user''\<rparr>"
  by (simp add: world_with_subscription_eq get_customer_row_def)

lemma world_with_method_row:
  "get_payment_method_row world_with_method 1 = Some a_payment_method"
  by (simp add: world_with_method_eq get_payment_method_row_def a_payment_method_def)

lemma world_with_method_customer:
  "get_customer_row world_with_method 1 =
     Some \<lparr>c_id = 1, c_email = ''a@b.com'', c_name = [], c_role = ''user''\<rparr>"
  "get_customer_row world_with_method 2 = None"
  by (simp_all add: world_with_method_eq get_customer_row_def)

lemma scheduled_retries_world_with_method: "scheduled_retries world_with_method = 0"
  by (simp add: world_with_method_eq scheduled_retries_def)

lemma world_with_customer_lookup:
  "get_or_404 (get_customer_row world_with_customer 1) 1 = Inr a_customer"
  by (simp add: world_with_customer_eq get_customer_row_def get_or_404_def sqlite_int_def
        a_customer_def)

lemma a_huge_int_positive: "0 < a_huge_int"
  by (simp add: a_huge_int_def)

lemma float_of_a_huge_int: "float_of (PInt a_huge_int) = Inl OverflowError"
  by (simp add: float_of_def fits_double_def a_huge_int_def)

lemma not_encodable_accented: "\<not> encodable Ascii [Lit an_accented_address]"
  by (simp add: encodable_def is_ascii_def an_accented_address_def)

lemma encodable_a_customer: "encodable enc [Lit (c_email a_customer)]"
  by (cases enc) (simp_all add: encodable_def is_ascii_def a_customer_def)

lemma world_with_method_lookup:
  "get_or_404 (get_payment_method_row world_with_method 1) 1 = Inr a_payment_method"
  "get_or_404 (get_customer_row world_with_method 1) 1 = Inr a_customer"
  "get_or_404 (get_customer_row world_with_method 2) 2 = Inl 404"
  by (simp_all add: world_with_method_row world_with_method_customer get_or_404_def
        sqlite_int_def a_customer_def)


section \<open>The claims\<close>

subsection \<open>C1: creating a subscription\<close>

text \<open>
  C1, as the code has it. For every call of \<^verbatim>\<open>create_subscription\<close> with an existing
  customer, a price above 0 that is a float or an int within the range of a double, and an
  interval among \<^verbatim>\<open>monthly\<close> and \<^verbatim>\<open>yearly\<close>, the answer is 201 and exactly one invoice is
  created, with amount equal to the subscription price and status \<^verbatim>\<open>pending\<close>; the
  subscription itself is created with status \<^verbatim>\<open>active\<close>, no end date and \<^verbatim>\<open>start_date\<close> the
  clock reading of the route, and one invoice notification is sent to the customer. The
  due date of the invoice is 7 days after the clock reading that \<^verbatim>\<open>generate_invoice\<close> takes
  for itself, after the subscription has been committed: it is \<^verbatim>\<open>start_date\<close> plus 7 days
  exactly when the two readings coincide.
\<close>

theorem create_subscription_invoice:
  assumes "get_or_404 (get_customer_row w (sr_customer_id data)) (sr_customer_id data) = Inr c"
    and "0 < number_value (sr_price data)"
    and "float_of (sr_price data) = Inr p"
    and "sr_billing_interval data \<in> {''monthly'', ''yearly''}"
  shows "p = number_value (sr_price data) \<and>
     fst (create_subscription now1 now2 tr data w) =
       Json 201 [(''id'', JInt (next_id (map sub_id (subscriptions w)))),
                 (''plan_name'', JStr (sr_plan_name data)),
                 (''status'', JStr ''active''),
                 (''invoice_id'', JInt (next_id (map inv_id (invoices w))))] \<and>
     subscriptions (snd (create_subscription now1 now2 tr data w)) =
       subscriptions w @
         [\<lparr>sub_id = next_id (map sub_id (subscriptions w)),
           sub_customer_id = sr_customer_id data,
           sub_plan_name = sr_plan_name data, sub_price = p,
           sub_billing_interval = sr_billing_interval data, sub_start_date = now1,
           sub_end_date = None, sub_status = ''active''\<rparr>] \<and>
     invoices (snd (create_subscription now1 now2 tr data w)) =
       invoices w @
         [\<lparr>inv_id = next_id (map inv_id (invoices w)),
           inv_customer_id = sr_customer_id data,
           inv_subscription_id = next_id (map sub_id (subscriptions w)),
           inv_amount = p, inv_status = ''pending'',
           inv_due_date = now2 + timedelta 7\<rparr>] \<and>
     smtp_log (snd (create_subscription now1 now2 tr data w)) =
       smtp_log w @
         [(\<lparr>msg_subject = [Lit ''Invoice #'', Lit (str_int (next_id (map inv_id (invoices w))))],
            msg_from = ''billing@example.com'', msg_to = c_email c,
            msg_body = [Lit ''New invoice for '', Lit (sr_plan_name data), Lit ''. Amount: $'',
                        Fixed2 p, Lit '', Due: '', Stamp (now2 + timedelta 7)]\<rparr>,
           tr)] \<and>
     (inv_due_date (last (invoices (snd (create_subscription now1 now2 tr data w)))) =
        sub_start_date (last (subscriptions (snd (create_subscription now1 now2 tr data w))))
          + timedelta 7)
       = (now2 = now1)"
proof -
  from assms(1) have "get_customer_row w (sr_customer_id data) = Some c"
    by (simp add: get_or_404_Inr)
  then have "c_id c = sr_customer_id data" by (simp add: get_customer_rowD)
  with assms(1,3) float_of_value [OF assms(3)] show ?thesis
    by (simp add: create_subscription_eq)
qed

text \<open>
  The request of the small run, with both clock readings equal to 5.
\<close>

theorem create_subscription_invoice_witness:
  "get_or_404 (get_customer_row world_with_customer (sr_customer_id a_subscription_request))
     (sr_customer_id a_subscription_request) = Inr a_customer \<and>
   0 < number_value (sr_price a_subscription_request) \<and>
   float_of (sr_price a_subscription_request) = Inr (2999 / 100) \<and>
   sr_billing_interval a_subscription_request = ''monthly'' \<and>
   subscriptions (snd (create_subscription 5 5 Delivered a_subscription_request
                         world_with_customer)) =
     [a_subscription\<lparr>sub_start_date := 5\<rparr>] \<and>
   invoices (snd (create_subscription 5 5 Delivered a_subscription_request
                    world_with_customer)) =
     [\<lparr>inv_id = 1, inv_customer_id = 1, inv_subscription_id = 1, inv_amount = 2999 / 100,
       inv_status = ''pending'', inv_due_date = 5 + timedelta 7\<rparr>] \<and>
   map (msg_to \<circ> fst) (smtp_log (snd (create_subscription 5 5 Delivered a_subscription_request
                    world_with_customer))) = [''a@b.com'']"
proof -
  have c: "get_or_404 (get_customer_row world_with_customer (sr_customer_id a_subscription_request))
     (sr_customer_id a_subscription_request) = Inr a_customer"
    by (simp add: a_subscription_request_def world_with_customer_lookup)
  have v: "0 < number_value (sr_price a_subscription_request)"
    by (simp add: a_subscription_request_def number_value_def)
  have f: "float_of (sr_price a_subscription_request) = Inr (2999 / 100)"
    by (simp add: a_subscription_request_def float_of_def)
  have i: "sr_billing_interval a_subscription_request \<in> {''monthly'', ''yearly''}"
    by (simp add: a_subscription_request_def)
  from create_subscription_invoice [OF c v f i, of 5 5 Delivered]
  show ?thesis using c v f
    by (simp add: world_with_customer_eq a_subscription_request_def a_subscription_def
          a_customer_def next_id_def)
qed

text \<open>
  The claim as the specification states it fails in two ways. With the due date equal to
  \<^verbatim>\<open>start_date\<close> plus 7 days, it fails as soon as the clock advances between the two
  readings: here the route reads 0 and \<^verbatim>\<open>generate_invoice\<close> reads 1, one microsecond later.
  For every price above 0, it fails at a price that is an int beyond the range of a double:
  the conversion for the \<^verbatim>\<open>Float\<close> column raises, the route answers 500 and nothing is
  stored.
\<close>

theorem create_subscription_due_date_counterexample:
  "get_or_404 (get_customer_row world_with_customer (sr_customer_id a_subscription_request))
     (sr_customer_id a_subscription_request) = Inr a_customer \<and>
   0 < number_value (sr_price a_subscription_request) \<and>
   sr_billing_interval a_subscription_request = ''monthly'' \<and>
   map sub_start_date
     (subscriptions (snd (create_subscription 0 1 Delivered a_subscription_request
                            world_with_customer))) = [0] \<and>
   map inv_due_date
     (invoices (snd (create_subscription 0 1 Delivered a_subscription_request
                       world_with_customer))) = [604800000001] \<and>
   (604800000001 :: int) \<noteq> 0 + timedelta 7 \<and>
   0 < number_value (PInt a_huge_int) \<and>
   create_subscription 0 1 Delivered (a_subscription_request\<lparr>sr_price := PInt a_huge_int\<rparr>)
     world_with_customer = (Abort 500, world_with_customer)"
proof -
  have c: "get_or_404 (get_customer_row world_with_customer (sr_customer_id a_subscription_request))
     (sr_customer_id a_subscription_request) = Inr a_customer"
    by (simp add: a_subscription_request_def world_with_customer_lookup)
  note f = float_of_a_huge_int
  have "create_subscription 0 1 Delivered (a_subscription_request\<lparr>sr_price := PInt a_huge_int\<rparr>)
     world_with_customer = (Abort 500, world_with_customer)"
    using c by (simp add: create_subscription_eq f)
  moreover have "0 < number_value (PInt a_huge_int)"
    by (simp add: number_value_def a_huge_int_positive)
  moreover have "subscriptions (snd (create_subscription 0 1 Delivered a_subscription_request
                            world_with_customer)) = subscriptions world_with_subscription"
    "invoices (snd (create_subscription 0 1 Delivered a_subscription_request
                            world_with_customer)) = invoices world_with_subscription"
    by (simp_all add: world_with_subscription_def)
  moreover have "0 < number_value (sr_price a_subscription_request)"
    "sr_billing_interval a_subscription_request = ''monthly''"
    by (simp_all add: a_subscription_request_def number_value_def)
  ultimately show ?thesis using c
    by (simp add: world_with_subscription_eq timedelta_def)
qed

subsection \<open>C2: cancellation and the prorated refund notice\<close>

text \<open>
  C2. For every subscription stored in a reachable state, \<^verbatim>\<open>cancel_subscription\<close> answers
  200 and stores the row with status \<^verbatim>\<open>canceled\<close> and \<^verbatim>\<open>end_date\<close> the clock reading
  taken for it, whatever the sign of \<^verbatim>\<open>days_remaining\<close>. One refund notice is handed to
  the mail transport if and only if \<^verbatim>\<open>days_remaining\<close>, which is 30 minus the whole days
  between \<^verbatim>\<open>start_date\<close> and the second clock reading, is positive; its amount is
  \<^verbatim>\<open>(days_remaining / 30) * price\<close>. After 30 elapsed days nothing is sent; after 29 the
  amount is \<^verbatim>\<open>(1 / 30) * price\<close>.
\<close>

theorem cancel_subscription_prorates:
  assumes "reachable w" and "get_subscription_row w k = Some s"
  shows "\<exists>c. get_customer_row w (sub_customer_id s) = Some c \<and>
     fst (cancel_subscription now1 now2 tr k w) =
       Json 200 [(''id'', JInt k), (''status'', JStr ''canceled'')] \<and>
     get_subscription_row (snd (cancel_subscription now1 now2 tr k w)) k =
       Some (s\<lparr>sub_status := ''canceled'', sub_end_date := Some now1\<rparr>) \<and>
     smtp_log (snd (cancel_subscription now1 now2 tr k w)) =
       (if 0 < 30 - days (now2 - sub_start_date s)
        then smtp_log w @
          [(\<lparr>msg_subject = [Lit ''Subscription Canceled''], msg_from = ''billing@example.com'',
             msg_to = c_email c,
             msg_body = [Lit ''Your subscription has been canceled. Prorated refund: $'',
                         Fixed2 (real_of_int (30 - days (now2 - sub_start_date s)) / 30
                                 * sub_price s)]\<rparr>, tr)]
        else smtp_log w) \<and>
     (days (now2 - sub_start_date s) = 30 \<longrightarrow>
        smtp_log (snd (cancel_subscription now1 now2 tr k w)) = smtp_log w) \<and>
     (days (now2 - sub_start_date s) = 29 \<longrightarrow>
        smtp_log (snd (cancel_subscription now1 now2 tr k w)) = smtp_log w @
          [(\<lparr>msg_subject = [Lit ''Subscription Canceled''], msg_from = ''billing@example.com'',
             msg_to = c_email c,
             msg_body = [Lit ''Your subscription has been canceled. Prorated refund: $'',
                         Fixed2 (1 / 30 * sub_price s)]\<rparr>, tr)])"
proof -
  from assms obtain c where c: "get_customer_row w (sub_customer_id s) = Some c"
    by (rule reachable_customer_of)
  have "fst (cancel_subscription now1 now2 tr k w) =
       Json 200 [(''id'', JInt k), (''status'', JStr ''canceled'')]"
    by (simp add: cancel_subscription_found [OF assms(2) c])
  with c cancel_subscription_row [OF assms(2) c, of now1 now2 tr]
    cancel_subscription_smtp_log [OF assms(2) c, of now1 now2 tr]
  show ?thesis by auto
qed

text \<open>
  The subscription of the small run, canceled 29 days and 30 days after its start.
\<close>

theorem cancel_subscription_prorates_witness:
  "reachable world_with_subscription \<and>
   get_subscription_row world_with_subscription 1 = Some a_subscription \<and>
   days (2505600000000 - sub_start_date a_subscription) = 29 \<and>
   smtp_log (snd (cancel_subscription 2505600000000 2505600000000 Delivered 1
                    world_with_subscription)) =
     smtp_log world_with_subscription @
       [(\<lparr>msg_subject = [Lit ''Subscription Canceled''], msg_from = ''billing@example.com'',
          msg_to = ''a@b.com'',
          msg_body = [Lit ''Your subscription has been canceled. Prorated refund: $'',
                      Fixed2 (1 / 30 * (2999 / 100))]\<rparr>, Delivered)] \<and>
   days (2592000000000 - sub_start_date a_subscription) = 30 \<and>
   smtp_log (snd (cancel_subscription 2592000000000 2592000000000 Delivered 1
                    world_with_subscription)) =
     smtp_log world_with_subscription \<and>
   get_subscription_row
     (snd (cancel_subscription 2592000000000 2592000000000 Delivered 1 world_with_subscription)) 1 =
     Some (a_subscription\<lparr>sub_status := ''canceled'', sub_end_date := Some 2592000000000\<rparr>)"
proof -
  note r = reachable_world_with_subscription and s = world_with_subscription_row
  have d: "days (2505600000000 - sub_start_date a_subscription) = 29"
    "days (2592000000000 - sub_start_date a_subscription) = 30"
    by (simp_all add: days_def a_subscription_def)
  have p: "sub_customer_id a_subscription = 1" "sub_price a_subscription = 2999 / 100"
    by (simp_all add: a_subscription_def)
  from cancel_subscription_prorates [OF r s, of 2505600000000 2505600000000 Delivered]
    cancel_subscription_prorates [OF r s, of 2592000000000 2592000000000 Delivered]
  show ?thesis
    using r s d by (auto simp: p world_with_subscription_customer)
qed

subsection \<open>C3: a failing notification does not undo the cancellation\<close>

text \<open>
  C3. For every subscription stored in a reachable state and every behaviour of the mail
  transport (delivery, or an exception, which \<^verbatim>\<open>send_email\<close> catches and turns into
  \<^verbatim>\<open>False\<close>), \<^verbatim>\<open>cancel_subscription\<close> answers 200 and commits the row with status
  \<^verbatim>\<open>canceled\<close> and its \<^verbatim>\<open>end_date\<close>; the four tables after the call are the same for any
  two behaviours of the transport.
\<close>

theorem cancel_subscription_survives_notification_failure:
  assumes "reachable w" and "get_subscription_row w k = Some s"
  shows "fst (cancel_subscription now1 now2 tr k w) =
       Json 200 [(''id'', JInt k), (''status'', JStr ''canceled'')] \<and>
     get_subscription_row (snd (cancel_subscription now1 now2 tr k w)) k =
       Some (s\<lparr>sub_status := ''canceled'', sub_end_date := Some now1\<rparr>) \<and>
     customers (snd (cancel_subscription now1 now2 tr k w)) =
       customers (snd (cancel_subscription now1 now2 tr' k w)) \<and>
     payment_methods (snd (cancel_subscription now1 now2 tr k w)) =
       payment_methods (snd (cancel_subscription now1 now2 tr' k w)) \<and>
     subscriptions (snd (cancel_subscription now1 now2 tr k w)) =
       subscriptions (snd (cancel_subscription now1 now2 tr' k w)) \<and>
     invoices (snd (cancel_subscription now1 now2 tr k w)) =
       invoices (snd (cancel_subscription now1 now2 tr' k w)) \<and>
     fst (send_email (SmtpError e) to_email subject body w) = False"
proof -
  from assms obtain c where c: "get_customer_row w (sub_customer_id s) = Some c"
    by (rule reachable_customer_of)
  have "fst (cancel_subscription now1 now2 tr k w) =
       Json 200 [(''id'', JInt k), (''status'', JStr ''canceled'')]"
    by (simp add: cancel_subscription_found [OF assms(2) c])
  moreover have "fst (send_email (SmtpError e) to_email subject body w) = False"
    by (simp add: send_email_def Let_def)
  ultimately show ?thesis
    by (simp add: cancel_subscription_row [OF assms(2) c]
          cancel_subscription_tables [OF assms(2) c])
qed

text \<open>
  The subscription of the small run, canceled after 10 days while the mail server refuses
  the connection: the stored row is the one stored when the mail is delivered.
\<close>

theorem cancel_subscription_survives_notification_failure_witness:
  "reachable world_with_subscription \<and>
   get_subscription_row world_with_subscription 1 = Some a_subscription \<and>
   fst (cancel_subscription 864000000000 864000000000 (SmtpError ''Connection refused'') 1
          world_with_subscription) =
     Json 200 [(''id'', JInt 1), (''status'', JStr ''canceled'')] \<and>
   subscriptions (snd (cancel_subscription 864000000000 864000000000
                         (SmtpError ''Connection refused'') 1 world_with_subscription)) =
     [a_subscription\<lparr>sub_status := ''canceled'', sub_end_date := Some 864000000000\<rparr>] \<and>
   subscriptions (snd (cancel_subscription 864000000000 864000000000 Delivered 1
                         world_with_subscription)) =
     [a_subscription\<lparr>sub_status := ''canceled'', sub_end_date := Some 864000000000\<rparr>]"
proof -
  note r = reachable_world_with_subscription and s = world_with_subscription_row
  have c: "get_customer_row world_with_subscription (sub_customer_id a_subscription) =
     Some \<lparr>c_id = 1, c_email = ''a@b.com'', c_name = [], c_role = ''user''\<rparr>"
    by (simp add: a_subscription_def world_with_subscription_customer)
  have e: "subscriptions (snd (cancel_subscription 864000000000 864000000000 Delivered 1
                         world_with_subscription)) =
     [a_subscription\<lparr>sub_status := ''canceled'', sub_end_date := Some 864000000000\<rparr>]"
    by (simp add: cancel_subscription_tables [OF s c])
       (simp add: world_with_subscription_eq a_subscription_def)
  from cancel_subscription_survives_notification_failure
    [OF r s, of 864000000000 864000000000 "SmtpError ''Connection refused''" Delivered]
  show ?thesis using r s e by simp
qed

subsection \<open>C4: the dunning workflow\<close>

text \<open>
  C4, as the code has it. For every customer whose email \<^verbatim>\<open>sys.stdout\<close> can encode, every
  payment method, every amount that is a float or an int within the range of a double, and
  every clock reading, \<^verbatim>\<open>handle_failed_payment\<close> returns without raising and does exactly
  this: it prints the line that schedules the retry and then issues one notification
  through the \<^verbatim>\<open>send_email\<close> of the dunning module, addressed to the customer's email, saying
  that the payment failed and naming the retry date; in both the retry date is the clock
  reading plus 2 days. For every input whatever, whether the call returns or raises, no
  table changes and nothing is handed to the mail transport: the retry is neither stored
  nor carried out.
\<close>

theorem handle_failed_payment_effect:
  assumes "float_of n = Inr x" and "encodable enc [Lit (c_email customer)]"
  shows "handle_failed_payment enc now customer payment_method (PyNum n) w =
     (None,
      w\<lparr>stdout := stdout w @
        [[Lit ''Scheduled retry for '', Lit (c_email customer), Lit '' on '',
          Stamp (now + timedelta 2)],
         [Lit ''Mock sending email to '', Lit (c_email customer), Lit '': '',
          Lit ''Payment Failed'', Lit '' - '',
          Lit ''Payment of $'', Fixed2 x, Lit '' failed. We'll retry on '',
          Stamp (now + timedelta 2), Lit ''. Please update your payment method.'']]\<rparr>) \<and>
   scheduled_retries (snd (handle_failed_payment enc now customer payment_method (PyNum n) w)) =
     scheduled_retries w + 1 \<and>
   timedelta 2 = 172800000000 \<and>
   customers (snd (handle_failed_payment enc' now' customer' payment_method' amount' w')) =
     customers w' \<and>
   payment_methods (snd (handle_failed_payment enc' now' customer' payment_method' amount' w')) =
     payment_methods w' \<and>
   subscriptions (snd (handle_failed_payment enc' now' customer' payment_method' amount' w')) =
     subscriptions w' \<and>
   invoices (snd (handle_failed_payment enc' now' customer' payment_method' amount' w')) =
     invoices w' \<and>
   smtp_log (snd (handle_failed_payment enc' now' customer' payment_method' amount' w')) =
     smtp_log w'"
  by (simp add: handle_failed_payment_returns [OF assms] scheduled_retries_append timedelta_def)

text \<open>
  The customer and the payment method of the small run, an amount of 10 and an ASCII
  \<^verbatim>\<open>sys.stdout\<close>.
\<close>

theorem handle_failed_payment_effect_witness:
  "float_of (PInt 10) = Inr 10 \<and>
   encodable Ascii [Lit (c_email a_customer)] \<and>
   handle_failed_payment Ascii 0 a_customer a_payment_method (PyNum (PInt 10))
       world_with_method =
     (None,
      world_with_method\<lparr>stdout :=
        [[Lit ''Scheduled retry for '', Lit ''a@b.com'', Lit '' on '', Stamp 172800000000],
         [Lit ''Mock sending email to '', Lit ''a@b.com'', Lit '': '',
          Lit ''Payment Failed'', Lit '' - '',
          Lit ''Payment of $'', Fixed2 10, Lit '' failed. We'll retry on '',
          Stamp 172800000000, Lit ''. Please update your payment method.'']]\<rparr>)"
proof -
  have f: "float_of (PInt 10) = Inr 10"
    by (simp add: float_of_def fits_double_def)
  note e = encodable_a_customer [of Ascii]
  have s: "stdout world_with_method = []" "c_email a_customer = ''a@b.com''"
    by (simp_all add: world_with_method_eq a_customer_def)
  from handle_failed_payment_effect [OF f e, of 0 a_payment_method world_with_method]
  show ?thesis using f e by (simp add: s)
qed

text \<open>
  The claim as the specification states it, for every amount and every customer, fails in
  two ways. For an amount that is an int beyond the range of a double, the formatting with
  \<^verbatim>\<open>.2f\<close> raises \<^verbatim>\<open>OverflowError\<close> after the first line has been printed and before the
  notification. For an email that \<^verbatim>\<open>sys.stdout\<close> cannot encode, the first \<^verbatim>\<open>print\<close> raises
  \<^verbatim>\<open>UnicodeEncodeError\<close>.
\<close>

theorem handle_failed_payment_raises_counterexample:
  "handle_failed_payment Utf8 0 a_customer a_payment_method (PyNum (PInt a_huge_int))
       world_with_method =
     (Some OverflowError,
      world_with_method\<lparr>stdout :=
        [[Lit ''Scheduled retry for '', Lit ''a@b.com'', Lit '' on '', Stamp 172800000000]]\<rparr>) \<and>
   handle_failed_payment Ascii 0 (a_customer\<lparr>c_email := an_accented_address\<rparr>)
       a_payment_method (PyNum (PInt 10)) world_with_method =
     (Some UnicodeEncodeError, world_with_method)"
proof -
  have s: "stdout world_with_method = []" "c_email a_customer = ''a@b.com''"
    by (simp_all add: world_with_method_eq a_customer_def)
  have "handle_failed_payment Ascii 0 (a_customer\<lparr>c_email := an_accented_address\<rparr>)
       a_payment_method (PyNum (PInt 10)) world_with_method =
     (Some UnicodeEncodeError, world_with_method)"
    by (rule handle_failed_payment_unencodable) (simp add: not_encodable_accented)
  with handle_failed_payment_overflow
    [OF float_of_a_huge_int encodable_a_customer, of Utf8 0 a_payment_method world_with_method]
  show ?thesis by (simp add: s timedelta_def)
qed

subsection \<open>C5: when the dunning workflow runs\<close>

text \<open>
  C5, as the code has it. For a request whose payment method is found, so that the
  authorization is attempted: when the gateway succeeds the route answers 200 with the
  result and the state is unchanged; when it declines and the customer id of the request
  names a stored customer, \<^verbatim>\<open>handle_failed_payment\<close> runs exactly once, on the state of the
  request, and the route answers 400 if it returns and 500 if it raises; when it declines
  and the lookup of the customer fails (404 when no customer has that id, 500 when the id
  is outside the signed 64 bits that the store binds) the route answers with that status
  and \<^verbatim>\<open>handle_failed_payment\<close> does not run.
\<close>

theorem process_payment_route_dunning:
  assumes "get_or_404 (get_payment_method_row w (pay_payment_method_id data))
             (pay_payment_method_id data) = Inr pm"
  shows "process_payment_route enc r n now data w =
     (if map_of (process_payment r n pm (pay_amount data)) ''status'' = Some ''success''
      then (Json 200 [(''status'', JStr ''success''), (''transaction_id'', JStr (str_int n))], w)
      else case get_or_404 (get_customer_row w (pay_customer_id data)) (pay_customer_id data) of
             Inl code \<Rightarrow> (Abort code, w)
           | Inr customer \<Rightarrow>
               (case fst (handle_failed_payment enc now customer pm (pay_amount data) w) of
                  None \<Rightarrow> Json 400 [(''status'', JStr ''failed''),
                                     (''error'', JStr ''insufficient_funds'')]
                | Some e \<Rightarrow> Abort 500,
                snd (handle_failed_payment enc now customer pm (pay_amount data) w))) \<and>
     (get_or_404 (get_customer_row w (pay_customer_id data)) (pay_customer_id data) = Inr c)
       = (sqlite_int (pay_customer_id data) \<and>
          get_customer_row w (pay_customer_id data) = Some c)"
  by (simp add: process_payment_route_found [OF assms] get_or_404_Inr)

text \<open>
  The payment method of the small run, charged for its customer with a draw of 0.5 and
  with a draw of 0.9.
\<close>

theorem process_payment_route_dunning_witness:
  "get_or_404 (get_payment_method_row world_with_method
                 (pay_payment_method_id a_payment_request))
     (pay_payment_method_id a_payment_request) = Inr a_payment_method \<and>
   process_payment_route Ascii (1 / 2) 1234 0 a_payment_request world_with_method =
     (Json 200 [(''status'', JStr ''success''), (''transaction_id'', JStr (str_int 1234))],
      world_with_method) \<and>
   fst (process_payment_route Ascii (9 / 10) 1234 0 a_payment_request world_with_method) =
     Json 400 [(''status'', JStr ''failed''), (''error'', JStr ''insufficient_funds'')] \<and>
   scheduled_retries (snd (process_payment_route Ascii (9 / 10) 1234 0 a_payment_request
                             world_with_method)) = 1"
proof -
  have p: "get_or_404 (get_payment_method_row world_with_method
                 (pay_payment_method_id a_payment_request))
     (pay_payment_method_id a_payment_request) = Inr a_payment_method"
    by (simp add: a_payment_request_def world_with_method_lookup)
  have c: "pay_customer_id a_payment_request = 1"
    "pay_amount a_payment_request = PyNum (PInt 10)"
    by (simp_all add: a_payment_request_def)
  have f: "float_of (PInt 10) = Inr 10"
    by (simp add: float_of_def fits_double_def)
  note h = handle_failed_payment_returns
    [OF f encodable_a_customer, of Ascii 0 a_payment_method world_with_method]
  from process_payment_route_dunning [OF p, of Ascii "1 / 2" 1234 0]
    process_payment_route_dunning [OF p, of Ascii "9 / 10" 1234 0]
  show ?thesis using p
    by (simp add: c world_with_method_lookup process_payment_status double_0_7_def h
          scheduled_retries_append scheduled_retries_world_with_method)
qed

text \<open>
  The claim as the specification states it, with one run of the dunning workflow for every
  declined authorization, fails when the request names a customer that is not stored:
  with the draw 0.9 the gateway declines, \<^verbatim>\<open>get_or_404\<close> aborts the request, and the state,
  in which no retry has been scheduled, is unchanged.
\<close>

theorem process_payment_route_dunning_counterexample:
  "get_or_404 (get_payment_method_row world_with_method 1) 1 = Inr a_payment_method \<and>
   map_of (process_payment (9 / 10) 1234 a_payment_method (PyNum (PInt 10))) ''status'' =
     Some ''failed'' \<and>
   process_payment_route Ascii (9 / 10) 1234 0
     \<lparr>pay_customer_id = 2, pay_amount = PyNum (PInt 10), pay_payment_method_id = 1\<rparr>
     world_with_method =
     (Abort 404, world_with_method) \<and>
   scheduled_retries world_with_method = 0"
  by (simp add: world_with_method_lookup process_payment_route_def
        process_payment_def mock_payment_gateway_def double_0_7_def
        scheduled_retries_world_with_method Let_def)

subsection \<open>C6: the simulated gateway\<close>

text \<open>
  C6. The result of \<^verbatim>\<open>mock_payment_gateway\<close> is a function of the random draws alone: two
  calls with the same draws return the same result whatever the token and the amount. The
  result is a success carrying a transaction id exactly when the first draw is below 0.7,
  and otherwise a failure carrying the reason \<^verbatim>\<open>insufficient_funds\<close>. Here 0.7 is the float
  literal of the code: the double nearest to 7/10, which is 3152519739159347 / 2^52 and
  lies below 7/10 by less than 2^-54. \<^verbatim>\<open>process_payment\<close> is this function on the token of
  the payment method, and the payment route, the only caller, leaves the four tables as
  they were.
\<close>

theorem mock_payment_gateway_outcome:
  "mock_payment_gateway r n token amount = mock_payment_gateway r n token' amount' \<and>
   mock_payment_gateway r n token amount =
     (if r < double_0_7
      then [(''status'', ''success''), (''transaction_id'', str_int n)]
      else [(''status'', ''failed''), (''error'', ''insufficient_funds'')]) \<and>
   (map_of (mock_payment_gateway r n token amount) ''status'' = Some ''success'')
     = (r < double_0_7) \<and>
   (map_of (mock_payment_gateway r n token amount) ''transaction_id'' = Some (str_int n))
     = (r < double_0_7) \<and>
   (map_of (mock_payment_gateway r n token amount) ''status'' = Some ''failed'')
     = (\<not> r < double_0_7) \<and>
   (map_of (mock_payment_gateway r n token amount) ''error'' = Some ''insufficient_funds'')
     = (\<not> r < double_0_7) \<and>
   double_0_7 = 3152519739159347 / 2 ^ 52 \<and>
   double_0_7 < 7 / 10 \<and>
   7 / 10 - double_0_7 < 1 / 2 ^ 54 \<and>
   process_payment r n payment_method amount =
     mock_payment_gateway r n (pm_token payment_method) amount \<and>
   customers (snd (process_payment_route enc r n now data w)) = customers w \<and>
   payment_methods (snd (process_payment_route enc r n now data w)) = payment_methods w \<and>
   subscriptions (snd (process_payment_route enc r n now data w)) = subscriptions w \<and>
   invoices (snd (process_payment_route enc r n now data w)) = invoices w"
  by (simp add: mock_payment_gateway_def process_payment_def double_0_7_def)

subsection \<open>C7: the end date is set exactly on canceled subscriptions\<close>

text \<open>
  C7. In every state reachable from the new database through the routes of the service
  (among them \<^verbatim>\<open>create_subscription\<close> and \<^verbatim>\<open>cancel_subscription\<close>), every stored
  subscription has its \<^verbatim>\<open>end_date\<close> set if and only if its status is \<^verbatim>\<open>canceled\<close>.
\<close>

theorem end_date_set_iff_canceled:
  assumes "reachable w"
  shows "\<forall>s \<in> set (subscriptions w). (sub_end_date s \<noteq> None) = (sub_status s = ''canceled'')"
  using reachable_end_date [OF assms] by (simp add: end_date_iff_canceled_def)

text \<open>
  The run that creates a customer and a subscription and cancels it: the row is
  \<^verbatim>\<open>active\<close> without end date before the cancellation, \<^verbatim>\<open>canceled\<close> with one after.
\<close>

theorem end_date_set_iff_canceled_witness:
  "reachable (snd (cancel_subscription 5 6 Delivered 1 world_with_subscription)) \<and>
   map (\<lambda>s. (sub_status s, sub_end_date s))
     (subscriptions (snd (cancel_subscription 5 6 Delivered 1 world_with_subscription))) =
     [(''canceled'', Some 5)] \<and>
   map (\<lambda>s. (sub_status s, sub_end_date s)) (subscriptions world_with_subscription) =
     [(''active'', None)]"
proof -
  have r: "reachable (snd (cancel_subscription 5 6 Delivered 1 world_with_subscription))"
    by (intro reachable.intros reachable_world_with_subscription)
  have e: "subscriptions (snd (cancel_subscription 5 6 Delivered 1 world_with_subscription)) =
      [\<lparr>sub_id = 1, sub_customer_id = 1, sub_plan_name = ''Pro'',
                        sub_price = 2999 / 100, sub_billing_interval = ''monthly'',
                        sub_start_date = 0, sub_end_date = Some 5, sub_status = ''canceled''\<rparr>]"
    by (simp add: world_with_subscription_eq cancel_subscription_def get_subscription_row_def
          get_customer_row_def save_subscription_def days_def Let_def)
  from end_date_set_iff_canceled [OF r] end_date_set_iff_canceled [OF reachable_world_with_subscription]
  show ?thesis using r e by (simp add: world_with_subscription_eq)
qed

subsection \<open>C8: canceling twice\<close>

text \<open>
  C8. \<^verbatim>\<open>cancel_subscription\<close> is not idempotent. On a subscription that it has already
  canceled it runs in full again: \<^verbatim>\<open>end_date\<close> is overwritten with the new clock reading,
  the proration is computed from the original \<^verbatim>\<open>start_date\<close> and price, and a second
  refund notice is handed to the mail transport whenever fewer than 30 whole days have
  elapsed since \<^verbatim>\<open>start_date\<close>.
\<close>

theorem cancel_subscription_twice:
  assumes "reachable w" and "get_subscription_row w k = Some s"
  shows "\<exists>c. get_customer_row w (sub_customer_id s) = Some c \<and>
     get_subscription_row (snd (cancel_subscription now1 now2 tr k w)) k =
       Some (s\<lparr>sub_status := ''canceled'', sub_end_date := Some now1\<rparr>) \<and>
     get_subscription_row
       (snd (cancel_subscription now3 now4 tr' k (snd (cancel_subscription now1 now2 tr k w)))) k =
       Some (s\<lparr>sub_status := ''canceled'', sub_end_date := Some now3\<rparr>) \<and>
     smtp_log
       (snd (cancel_subscription now3 now4 tr' k (snd (cancel_subscription now1 now2 tr k w)))) =
       (if 0 < 30 - days (now4 - sub_start_date s)
        then smtp_log (snd (cancel_subscription now1 now2 tr k w)) @
          [(\<lparr>msg_subject = [Lit ''Subscription Canceled''], msg_from = ''billing@example.com'',
             msg_to = c_email c,
             msg_body = [Lit ''Your subscription has been canceled. Prorated refund: $'',
                         Fixed2 (real_of_int (30 - days (now4 - sub_start_date s)) / 30
                                 * sub_price s)]\<rparr>, tr')]
        else smtp_log (snd (cancel_subscription now1 now2 tr k w)))"
proof -
  from assms obtain c where c: "get_customer_row w (sub_customer_id s) = Some c"
    by (rule reachable_customer_of)
  let ?w1 = "snd (cancel_subscription now1 now2 tr k w)"
  let ?s1 = "s\<lparr>sub_status := ''canceled'', sub_end_date := Some now1\<rparr>"
  have s1: "get_subscription_row ?w1 k = Some ?s1"
    by (rule cancel_subscription_row [OF assms(2) c])
  have c1: "get_customer_row ?w1 (sub_customer_id ?s1) = Some c"
    using c by (simp add: get_customer_row_def)
  from cancel_subscription_row [OF s1 c1, of now3 now4 tr']
    cancel_subscription_smtp_log [OF s1 c1, of now3 now4 tr'] c s1
  show ?thesis by simp
qed

text \<open>
  The subscription of the small run, canceled after 10 days and again after 20 days: the
  end date moves and a second notice, for 10 of 30 days, follows the first.
\<close>

theorem cancel_subscription_twice_witness:
  "reachable world_with_subscription \<and>
   get_subscription_row world_with_subscription 1 = Some a_subscription \<and>
   get_subscription_row
     (snd (cancel_subscription 864000000000 864000000000 Delivered 1 world_with_subscription)) 1 =
     Some (a_subscription\<lparr>sub_status := ''canceled'', sub_end_date := Some 864000000000\<rparr>) \<and>
   get_subscription_row
     (snd (cancel_subscription 1728000000000 1728000000000 Delivered 1
        (snd (cancel_subscription 864000000000 864000000000 Delivered 1
                world_with_subscription)))) 1 =
     Some (a_subscription\<lparr>sub_status := ''canceled'', sub_end_date := Some 1728000000000\<rparr>) \<and>
   smtp_log
     (snd (cancel_subscription 1728000000000 1728000000000 Delivered 1
        (snd (cancel_subscription 864000000000 864000000000 Delivered 1
                world_with_subscription)))) =
     smtp_log (snd (cancel_subscription 864000000000 864000000000 Delivered 1
                      world_with_subscription)) @
       [(\<lparr>msg_subject = [Lit ''Subscription Canceled''], msg_from = ''billing@example.com'',
          msg_to = ''a@b.com'',
          msg_body = [Lit ''Your subscription has been canceled. Prorated refund: $'',
                      Fixed2 (10 / 30 * (2999 / 100))]\<rparr>, Delivered)]"
proof -
  note r = reachable_world_with_subscription and s = world_with_subscription_row
  have d: "days (1728000000000 - sub_start_date a_subscription) = 20"
    by (simp add: days_def a_subscription_def)
  have p: "sub_customer_id a_subscription = 1" "sub_price a_subscription = 2999 / 100"
    by (simp_all add: a_subscription_def)
  from cancel_subscription_twice
    [OF r s, of 864000000000 864000000000 Delivered 1728000000000 1728000000000 Delivered]
  show ?thesis
    using r s by (auto simp: d p world_with_subscription_customer)
qed

subsection \<open>C9: what a payment method stores\<close>



subsection \<open>C10: the \<^verbatim>\<open>send_email\<close> of the dunning module\<close>



end
